theory Spec2Isabelle
  imports Main
begin

section \<open>Installation script for third-party libraries: data model\<close>

text \<open>
  The script \<^verbatim>\<open>scripts/install_dependencies_json_packages.py\<close> reads a JSON manifest,
  validates every dependency entry and downloads each dependency. Python exceptions
  and \<^verbatim>\<open>sys.exit\<close> are values of the type \<open>error\<close>; a function that returns
  \<^verbatim>\<open>None\<close> in Python returns \<open>Inr ()\<close> here and \<open>Inl e\<close> when it raises.
  Diagnostic output (\<^verbatim>\<open>print\<close>) is not modelled.
\<close>

datatype error =
    SystemExit nat
  | KeyError string
  | Exception string

text \<open>
  The handler \<^verbatim>\<open>except Exception\<close> catches every exception derived from
  \<^verbatim>\<open>Exception\<close>; \<^verbatim>\<open>SystemExit\<close> derives from \<^verbatim>\<open>BaseException\<close> only
  and passes through it.
\<close>

fun is_Exception :: "error \<Rightarrow> bool" where
  "is_Exception (SystemExit n) = False"
| "is_Exception (KeyError k) = True"
| "is_Exception (Exception m) = True"

text \<open>
  The exit status of the interpreter when the error reaches the top level:
  the argument of \<^verbatim>\<open>sys.exit\<close>, and 1 for an uncaught exception.
\<close>

fun exit_status :: "error \<Rightarrow> nat" where
  "exit_status (SystemExit n) = n"
| "exit_status (KeyError k) = 1"
| "exit_status (Exception m) = 1"

text \<open>
  \<^verbatim>\<open>class DependencyDict(TypedDict, total=False)\<close>: every key may be absent, so every
  field is optional. The value of \<^verbatim>\<open>downloadFormat\<close> is kept as the string of the
  manifest, since the code compares it with string constants and looks it up in a table.
  The field for the key \<^verbatim>\<open>bundle\<close> is named \<open>bundle'\<close>, as \<open>bundle\<close> is a keyword.
\<close>

record DependencyDict =
  version :: "string option"
  downloadFormat :: "string option"
  url :: "string option"
  rootDirPrefix :: "string option"
  rootDir :: "string option"
  targetDirPrefix :: "string option"
  targetDir :: "string option"
  tarRootDirPrefix :: "string option"
  files :: "string list option"
  bundle' :: "(string \<times> string list) list option"

text \<open>
  \<^verbatim>\<open>class DependenciesDict(TypedDict)\<close>: category name to dependency name to entry.
  The dictionaries are association lists in the order of the manifest, which is the
  order in which \<^verbatim>\<open>.items()\<close> iterates.
\<close>

record DependenciesDict =
  dependencies :: "(string \<times> (string \<times> DependencyDict) list) list"

record DownloadFormatToDependenciesKeysDict =
  mandatory_keys :: "string list"
  optional_key_pairs :: "string list list"

text \<open>\<^verbatim>\<open>list(dependency_dict.keys())\<close>: the keys that are present in the entry.\<close>

definition dict_keys :: "DependencyDict \<Rightarrow> string list" where
  "dict_keys d =
     (if version d = None then [] else [''version'']) @
     (if downloadFormat d = None then [] else [''downloadFormat'']) @
     (if url d = None then [] else [''url'']) @
     (if rootDirPrefix d = None then [] else [''rootDirPrefix'']) @
     (if rootDir d = None then [] else [''rootDir'']) @
     (if targetDirPrefix d = None then [] else [''targetDirPrefix'']) @
     (if targetDir d = None then [] else [''targetDir'']) @
     (if tarRootDirPrefix d = None then [] else [''tarRootDirPrefix'']) @
     (if files d = None then [] else [''files'']) @
     (if bundle' d = None then [] else [''bundle''])"

subsection \<open>Module constants\<close>

text \<open>
  \<^verbatim>\<open>os.path.join\<close> with two arguments, as \<^verbatim>\<open>posixpath.join\<close> computes it: an absolute
  second component replaces the first, and a separator is inserted unless the first
  component is empty or already ends with one.
\<close>

definition os_path_join :: "string \<Rightarrow> string \<Rightarrow> string" where
  "os_path_join a b =
     (if b \<noteq> [] \<and> hd b = CHR ''/'' then b
      else if a = [] \<or> last a = CHR ''/'' then a @ b
      else a @ ''/'' @ b)"

definition TOOLS_DIR :: string where
  "TOOLS_DIR = os_path_join ''..'' ''oppia_tools''"

definition THIRD_PARTY_DIR :: string where
  "THIRD_PARTY_DIR = os_path_join ''.'' ''third_party''"

definition THIRD_PARTY_STATIC_DIR :: string where
  "THIRD_PARTY_STATIC_DIR = os_path_join THIRD_PARTY_DIR ''static''"

definition TMP_UNZIP_PATH :: string where
  "TMP_UNZIP_PATH = os_path_join ''.'' ''tmp_unzip.zip''"

definition TARGET_DOWNLOAD_DIRS :: "string \<Rightarrow> string option" where
  "TARGET_DOWNLOAD_DIRS = map_of
     [(''proto'', THIRD_PARTY_DIR),
      (''frontend'', THIRD_PARTY_STATIC_DIR),
      (''oppiaTools'', TOOLS_DIR)]"

definition DOWNLOAD_FORMAT_ZIP :: string where
  "DOWNLOAD_FORMAT_ZIP = ''zip''"

definition DOWNLOAD_FORMAT_TAR :: string where
  "DOWNLOAD_FORMAT_TAR = ''tar''"

definition DOWNLOAD_FORMAT_FILES :: string where
  "DOWNLOAD_FORMAT_FILES = ''files''"

definition DOWNLOAD_FORMATS_TO_DEPENDENCIES_KEYS ::
  "string \<Rightarrow> DownloadFormatToDependenciesKeysDict option" where
  "DOWNLOAD_FORMATS_TO_DEPENDENCIES_KEYS = map_of
     [(''zip'',
        \<lparr>mandatory_keys = [''version'', ''url'', ''downloadFormat''],
         optional_key_pairs =
           [[''rootDir'', ''rootDirPrefix''], [''targetDir'', ''targetDirPrefix'']]\<rparr>),
      (''files'',
        \<lparr>mandatory_keys =
           [''version'', ''url'', ''files'', ''targetDirPrefix'', ''downloadFormat''],
         optional_key_pairs = []\<rparr>),
      (''tar'',
        \<lparr>mandatory_keys =
           [''version'', ''url'', ''tarRootDirPrefix'', ''targetDirPrefix'',
            ''downloadFormat''],
         optional_key_pairs = []\<rparr>)]"

section \<open>Validation of one entry: \<^verbatim>\<open>test_dependencies_syntax\<close>\<close>

text \<open>\<^verbatim>\<open>s.endswith(suffix)\<close>.\<close>

definition endswith :: "string \<Rightarrow> string \<Rightarrow> bool" where
  "endswith s suffix =
     (length suffix \<le> length s \<and> drop (length s - length suffix) s = suffix)"

text \<open>
  \<^verbatim>\<open>s.rpartition(sep)\<close> for a separator of one character: the part before the last
  occurrence, the separator, the part after it; two empty strings and \<open>s\<close> when the
  separator does not occur.
\<close>

definition rpartition :: "string \<Rightarrow> char \<Rightarrow> string \<times> string \<times> string" where
  "rpartition s sep =
     (if sep \<in> set s
      then (rev (tl (dropWhile (\<lambda>c. c \<noteq> sep) (rev s))), [sep],
            rev (takeWhile (\<lambda>c. c \<noteq> sep) (rev s)))
      else ([], [], s))"

text \<open>
  The loop over the mandatory keys (lines 300 to 307): the first key that is absent
  ends the process with \<^verbatim>\<open>sys.exit(1)\<close>.
\<close>

fun check_mandatory_keys :: "string list \<Rightarrow> string list \<Rightarrow> error + unit" where
  "check_mandatory_keys [] keys = Inr ()"
| "check_mandatory_keys (key # rest) keys =
     (if key \<notin> set keys then Inl (SystemExit 1) else check_mandatory_keys rest keys)"

text \<open>
  The loop over the optional key pairs (lines 309 to 320): a pair of which the entry
  does not hold exactly one member ends the process with \<^verbatim>\<open>sys.exit(1)\<close>.
\<close>

fun check_optional_key_pairs :: "string list list \<Rightarrow> string list \<Rightarrow> error + unit" where
  "check_optional_key_pairs [] keys = Inr ()"
| "check_optional_key_pairs (optional_keys # rest) keys =
     (let optional_keys_in_dict = filter (\<lambda>key. key \<in> set keys) optional_keys
      in if length optional_keys_in_dict \<noteq> 1 then Inl (SystemExit 1)
         else check_optional_key_pairs rest keys)"

text \<open>
  The check of the URL against the format (lines 322 to 338). The subscript
  \<^verbatim>\<open>dependency_dict['url']\<close> raises \<^verbatim>\<open>KeyError\<close> on an entry without that key.
\<close>

definition check_url :: "string \<Rightarrow> DependencyDict \<Rightarrow> error + unit" where
  "check_url dependency_type dependency_dict =
     (case url dependency_dict of
        None \<Rightarrow> Inl (KeyError ''url'')
      | Some u \<Rightarrow>
          (let dependency_url =
                 (if CHR ''#'' \<in> set u then fst (rpartition u (CHR ''#'')) else u);
               is_zip_file_format = (dependency_type = DOWNLOAD_FORMAT_ZIP);
               is_tar_file_format = (dependency_type = DOWNLOAD_FORMAT_TAR)
           in if endswith dependency_url ''.zip'' \<and> \<not> is_zip_file_format \<or>
                 is_zip_file_format \<and> \<not> endswith dependency_url ''.zip'' \<or>
                 endswith dependency_url ''.tar.gz'' \<and> \<not> is_tar_file_format \<or>
                 is_tar_file_format \<and> \<not> endswith dependency_url ''.tar.gz''
              then Inl (SystemExit 1)
              else Inr ()))"

text \<open>
  \<^verbatim>\<open>test_dependencies_syntax\<close>: the table lookup raises \<^verbatim>\<open>KeyError\<close> for a format
  that is not in the table; the optional pairs are checked only when the list of
  pairs is not empty.
\<close>

definition test_dependencies_syntax :: "string \<Rightarrow> DependencyDict \<Rightarrow> error + unit" where
  "test_dependencies_syntax dependency_type dependency_dict =
     (let keys = dict_keys dependency_dict
      in case DOWNLOAD_FORMATS_TO_DEPENDENCIES_KEYS dependency_type of
           None \<Rightarrow> Inl (KeyError dependency_type)
         | Some format_keys \<Rightarrow>
             (case check_mandatory_keys (mandatory_keys format_keys) keys of
                Inl e \<Rightarrow> Inl e
              | Inr _ \<Rightarrow>
                  (case (if optional_key_pairs format_keys \<noteq> []
                         then check_optional_key_pairs (optional_key_pairs format_keys) keys
                         else Inr ()) of
                     Inl e \<Rightarrow> Inl e
                   | Inr _ \<Rightarrow> check_url dependency_type dependency_dict)))"

section \<open>The environment: file system and network\<close>

text \<open>
  The functions of the script act on the file system and the network through
  \<^verbatim>\<open>os\<close>, \<^verbatim>\<open>zipfile\<close>, \<^verbatim>\<open>tarfile\<close>, \<^verbatim>\<open>common\<close> and \<^verbatim>\<open>utils\<close>, none of which
  is part of the script. Their behaviour is a parameter: an \<open>environment\<close> gives, for
  each primitive, its effect on a state \<open>'w\<close> of the outside world and whether it
  raises. A primitive that raises may still have changed the world.
\<close>

type_synonym bytes = "nat list"

record 'w environment =
  read_json :: "string \<Rightarrow> 'w \<Rightarrow> error + DependenciesDict"
  os_path_exists :: "string \<Rightarrow> 'w \<Rightarrow> bool"
  ensure_directory_exists :: "string \<Rightarrow> 'w \<Rightarrow> (error + unit) \<times> 'w"
  url_retrieve :: "string \<Rightarrow> string \<Rightarrow> 'w \<Rightarrow> (error + unit) \<times> 'w"
  zip_extractall_file :: "string \<Rightarrow> string \<Rightarrow> 'w \<Rightarrow> (error + unit) \<times> 'w"
  zip_extractall_bytes :: "bytes \<Rightarrow> string \<Rightarrow> 'w \<Rightarrow> (error + unit) \<times> 'w"
  tar_extractall_file :: "string \<Rightarrow> string \<Rightarrow> 'w \<Rightarrow> (error + unit) \<times> 'w"
  os_remove :: "string \<Rightarrow> 'w \<Rightarrow> (error + unit) \<times> 'w"
  os_rename :: "string \<Rightarrow> string \<Rightarrow> 'w \<Rightarrow> (error + unit) \<times> 'w"
  url_open_read :: "string \<Rightarrow> (string \<times> string) list \<Rightarrow> 'w \<Rightarrow> (error + bytes) \<times> 'w"

text \<open>
  Every primitive that the script invokes for its effect is recorded, in order, with
  its arguments; \<open>UrlRetrieve\<close> and \<open>UrlOpen\<close> are the network calls.
\<close>

datatype call =
    EnsureDirectoryExists string
  | UrlRetrieve string string
  | ZipExtractFile string string
  | ZipExtractBytes bytes string
  | TarExtractFile string string
  | OsRemove string
  | OsRename string string
  | UrlOpen string "(string \<times> string) list"

record 'w world =
  outside :: 'w
  calls :: "call list"

definition perform ::
  "call \<Rightarrow> ('w \<Rightarrow> 'r \<times> 'w) \<Rightarrow> 'w world \<Rightarrow> 'r \<times> 'w world" where
  "perform c f w =
     (case f (outside w) of (r, s) \<Rightarrow> (r, \<lparr>outside = s, calls = calls w @ [c]\<rparr>))"

fun is_network_call :: "call \<Rightarrow> bool" where
  "is_network_call (UrlRetrieve u p) = True"
| "is_network_call (UrlOpen u h) = True"
| "is_network_call c = False"

section \<open>The fetchers\<close>

text \<open>
  The loop of \<^verbatim>\<open>download_files\<close> (lines 148 to 155): a file is retrieved only when
  its path does not exist at the moment the loop reaches it; an exception of
  \<^verbatim>\<open>common.url_retrieve\<close> ends the loop.
\<close>

fun download_files_loop ::
  "'w environment \<Rightarrow> string \<Rightarrow> string \<Rightarrow> string list \<Rightarrow> 'w world
     \<Rightarrow> (error + unit) \<times> 'w world" where
  "download_files_loop env source_url_root target_dir [] w = (Inr (), w)"
| "download_files_loop env source_url_root target_dir (filename # rest) w =
     (if \<not> os_path_exists env (os_path_join target_dir filename) (outside w)
      then (case perform
                   (UrlRetrieve (source_url_root @ ''/'' @ filename)
                      (os_path_join target_dir filename))
                   (url_retrieve env (source_url_root @ ''/'' @ filename)
                      (os_path_join target_dir filename)) w of
              (Inl e, w') \<Rightarrow> (Inl e, w')
            | (Inr _, w') \<Rightarrow> download_files_loop env source_url_root target_dir rest w')
      else download_files_loop env source_url_root target_dir rest w)"

text \<open>
  \<^verbatim>\<open>download_files\<close>. The assertion that \<^verbatim>\<open>source_filenames\<close> is a list holds by
  the type of the argument.
\<close>

definition download_files ::
  "'w environment \<Rightarrow> string \<Rightarrow> string \<Rightarrow> string list \<Rightarrow> 'w world
     \<Rightarrow> (error + unit) \<times> 'w world" where
  "download_files env source_url_root target_dir source_filenames w =
     (case perform (EnsureDirectoryExists target_dir)
             (ensure_directory_exists env target_dir) w of
        (Inl e, w') \<Rightarrow> (Inl e, w')
      | (Inr _, w') \<Rightarrow>
          download_files_loop env source_url_root target_dir source_filenames w')"

text \<open>
  The body of the \<^verbatim>\<open>try\<close> statement of \<^verbatim>\<open>download_and_unzip_files\<close> (lines 189 to
  191): extract the archive at the temporary path, then remove it.
\<close>

definition unzip_try ::
  "'w environment \<Rightarrow> string \<Rightarrow> 'w world \<Rightarrow> (error + unit) \<times> 'w world" where
  "unzip_try env target_parent_dir w =
     (case perform (ZipExtractFile TMP_UNZIP_PATH target_parent_dir)
             (zip_extractall_file env TMP_UNZIP_PATH target_parent_dir) w of
        (Inl e, w') \<Rightarrow> (Inl e, w')
      | (Inr _, w') \<Rightarrow> perform (OsRemove TMP_UNZIP_PATH) (os_remove env TMP_UNZIP_PATH) w')"

text \<open>
  The handler of that statement (lines 193 to 203): remove the temporary file if it
  exists, fetch the archive again with a user-agent header, extract it from memory.
\<close>

definition unzip_except ::
  "'w environment \<Rightarrow> string \<Rightarrow> string \<Rightarrow> 'w world \<Rightarrow> (error + unit) \<times> 'w world" where
  "unzip_except env source_url target_parent_dir w =
     (case (if os_path_exists env TMP_UNZIP_PATH (outside w)
            then perform (OsRemove TMP_UNZIP_PATH) (os_remove env TMP_UNZIP_PATH) w
            else (Inr (), w)) of
        (Inl e, w1) \<Rightarrow> (Inl e, w1)
      | (Inr _, w1) \<Rightarrow>
          (case perform (UrlOpen source_url [(''User-agent'', ''python'')])
                  (url_open_read env source_url [(''User-agent'', ''python'')]) w1 of
             (Inl e, w2) \<Rightarrow> (Inl e, w2)
           | (Inr file_stream, w2) \<Rightarrow>
               perform (ZipExtractBytes file_stream target_parent_dir)
                 (zip_extractall_bytes env file_stream target_parent_dir) w2))"

definition download_and_unzip_files ::
  "'w environment \<Rightarrow> string \<Rightarrow> string \<Rightarrow> string \<Rightarrow> string \<Rightarrow> 'w world
     \<Rightarrow> (error + unit) \<times> 'w world" where
  "download_and_unzip_files env source_url target_parent_dir zip_root_name
       target_root_name w =
     (if \<not> os_path_exists env (os_path_join target_parent_dir target_root_name) (outside w)
      then
        (case perform (EnsureDirectoryExists target_parent_dir)
                (ensure_directory_exists env target_parent_dir) w of
           (Inl e, w1) \<Rightarrow> (Inl e, w1)
         | (Inr _, w1) \<Rightarrow>
        (case perform (UrlRetrieve source_url TMP_UNZIP_PATH)
                (url_retrieve env source_url TMP_UNZIP_PATH) w1 of
           (Inl e, w2) \<Rightarrow> (Inl e, w2)
         | (Inr _, w2) \<Rightarrow>
        (case (case unzip_try env target_parent_dir w2 of
                 (Inl e, w3) \<Rightarrow>
                   (if is_Exception e then unzip_except env source_url target_parent_dir w3
                    else (Inl e, w3))
               | (Inr _, w3) \<Rightarrow> (Inr (), w3)) of
           (Inl e, w4) \<Rightarrow> (Inl e, w4)
         | (Inr _, w4) \<Rightarrow>
             perform
               (OsRename (os_path_join target_parent_dir zip_root_name)
                  (os_path_join target_parent_dir target_root_name))
               (os_rename env (os_path_join target_parent_dir zip_root_name)
                  (os_path_join target_parent_dir target_root_name)) w4)))
      else (Inr (), w))"

definition download_and_untar_files ::
  "'w environment \<Rightarrow> string \<Rightarrow> string \<Rightarrow> string \<Rightarrow> string \<Rightarrow> 'w world
     \<Rightarrow> (error + unit) \<times> 'w world" where
  "download_and_untar_files env source_url target_parent_dir tar_root_name
       target_root_name w =
     (if \<not> os_path_exists env (os_path_join target_parent_dir target_root_name) (outside w)
      then
        (case perform (EnsureDirectoryExists target_parent_dir)
                (ensure_directory_exists env target_parent_dir) w of
           (Inl e, w1) \<Rightarrow> (Inl e, w1)
         | (Inr _, w1) \<Rightarrow>
        (case perform (UrlRetrieve source_url TMP_UNZIP_PATH)
                (url_retrieve env source_url TMP_UNZIP_PATH) w1 of
           (Inl e, w2) \<Rightarrow> (Inl e, w2)
         | (Inr _, w2) \<Rightarrow>
        (case perform (TarExtractFile TMP_UNZIP_PATH target_parent_dir)
                (tar_extractall_file env TMP_UNZIP_PATH target_parent_dir) w2 of
           (Inl e, w3) \<Rightarrow> (Inl e, w3)
         | (Inr _, w3) \<Rightarrow>
        (case perform (OsRemove TMP_UNZIP_PATH) (os_remove env TMP_UNZIP_PATH) w3 of
           (Inl e, w4) \<Rightarrow> (Inl e, w4)
         | (Inr _, w4) \<Rightarrow>
             perform
               (OsRename (os_path_join target_parent_dir tar_root_name)
                  (os_path_join target_parent_dir target_root_name))
               (os_rename env (os_path_join target_parent_dir tar_root_name)
                  (os_path_join target_parent_dir target_root_name)) w4))))
      else (Inr (), w))"

section \<open>The orchestrator\<close>

text \<open>
  \<^verbatim>\<open>return_json\<close> reads and parses the manifest; reading and parsing are primitives of
  the environment and change nothing.
\<close>

definition return_json :: "'w environment \<Rightarrow> string \<Rightarrow> 'w \<Rightarrow> error + DependenciesDict" where
  "return_json env filepath s = read_json env filepath s"

text \<open>
  The inner loop of \<^verbatim>\<open>validate_dependencies\<close> (lines 353 to 359), over the entries of
  one category.
\<close>

fun validate_entries :: "(string \<times> DependencyDict) list \<Rightarrow> error + unit" where
  "validate_entries [] = Inr ()"
| "validate_entries ((name, dependency_contents) # rest) =
     (case downloadFormat dependency_contents of
        None \<Rightarrow> Inl (Exception ''downloadFormat not specified'')
      | Some download_format \<Rightarrow>
          (case test_dependencies_syntax download_format dependency_contents of
             Inl e \<Rightarrow> Inl e
           | Inr _ \<Rightarrow> validate_entries rest))"

text \<open>The outer loop (line 352), over the categories.\<close>

fun validate_categories ::
  "(string \<times> (string \<times> DependencyDict) list) list \<Rightarrow> error + unit" where
  "validate_categories [] = Inr ()"
| "validate_categories ((category, dependency) # rest) =
     (case validate_entries dependency of
        Inl e \<Rightarrow> Inl e
      | Inr _ \<Rightarrow> validate_categories rest)"

definition validate_dependencies :: "'w environment \<Rightarrow> string \<Rightarrow> 'w \<Rightarrow> error + unit" where
  "validate_dependencies env filepath s =
     (case return_json env filepath s of
        Inl e \<Rightarrow> Inl e
      | Inr dependencies_data \<Rightarrow> validate_categories (dependencies dependencies_data))"

text \<open>
  The body of the inner loop of \<^verbatim>\<open>download_all_dependencies\<close> (lines 373 to 409) for
  the entry \<open>dependency_contents\<close> of the category \<open>data\<close>. Every subscript raises
  \<^verbatim>\<open>KeyError\<close> on an absent key, in the order in which the source evaluates them. A
  format that is none of the three is skipped: the chain of \<^verbatim>\<open>elif\<close> has no
  \<^verbatim>\<open>else\<close>.
\<close>

definition download_dependency ::
  "'w environment \<Rightarrow> string \<Rightarrow> DependencyDict \<Rightarrow> 'w world \<Rightarrow> (error + unit) \<times> 'w world" where
  "download_dependency env data dependency_contents w =
     (case version dependency_contents of
        None \<Rightarrow> (Inl (KeyError ''version''), w)
      | Some dependency_rev \<Rightarrow>
     (case url dependency_contents of
        None \<Rightarrow> (Inl (KeyError ''url''), w)
      | Some dependency_url \<Rightarrow>
     (case downloadFormat dependency_contents of
        None \<Rightarrow> (Inl (KeyError ''downloadFormat''), w)
      | Some download_format \<Rightarrow>
     (if download_format = DOWNLOAD_FORMAT_FILES then
        (case files dependency_contents of
           None \<Rightarrow> (Inl (KeyError ''files''), w)
         | Some dependency_files \<Rightarrow>
        (case targetDirPrefix dependency_contents of
           None \<Rightarrow> (Inl (KeyError ''targetDirPrefix''), w)
         | Some target_dir_prefix \<Rightarrow>
        (case TARGET_DOWNLOAD_DIRS data of
           None \<Rightarrow> (Inl (KeyError data), w)
         | Some target_download_dir \<Rightarrow>
             download_files env dependency_url
               (os_path_join target_download_dir (target_dir_prefix @ dependency_rev))
               dependency_files w)))
      else if download_format = DOWNLOAD_FORMAT_ZIP then
        (case (case rootDir dependency_contents of
                 Some root_dir \<Rightarrow> Inr root_dir
               | None \<Rightarrow>
                   (case rootDirPrefix dependency_contents of
                      None \<Rightarrow> Inl (KeyError ''rootDirPrefix'')
                    | Some root_dir_prefix \<Rightarrow> Inr (root_dir_prefix @ dependency_rev))) of
           Inl e \<Rightarrow> (Inl e, w)
         | Inr dependency_zip_root_name \<Rightarrow>
        (case (case targetDir dependency_contents of
                 Some target_dir \<Rightarrow> Inr target_dir
               | None \<Rightarrow>
                   (case targetDirPrefix dependency_contents of
                      None \<Rightarrow> Inl (KeyError ''targetDirPrefix'')
                    | Some target_dir_prefix \<Rightarrow> Inr (target_dir_prefix @ dependency_rev))) of
           Inl e \<Rightarrow> (Inl e, w)
         | Inr dependency_target_root_name \<Rightarrow>
        (case TARGET_DOWNLOAD_DIRS data of
           None \<Rightarrow> (Inl (KeyError data), w)
         | Some target_download_dir \<Rightarrow>
             download_and_unzip_files env dependency_url target_download_dir
               dependency_zip_root_name dependency_target_root_name w)))
      else if download_format = DOWNLOAD_FORMAT_TAR then
        (case tarRootDirPrefix dependency_contents of
           None \<Rightarrow> (Inl (KeyError ''tarRootDirPrefix''), w)
         | Some tar_root_dir_prefix \<Rightarrow>
        (case targetDirPrefix dependency_contents of
           None \<Rightarrow> (Inl (KeyError ''targetDirPrefix''), w)
         | Some target_dir_prefix \<Rightarrow>
        (case TARGET_DOWNLOAD_DIRS data of
           None \<Rightarrow> (Inl (KeyError data), w)
         | Some target_download_dir \<Rightarrow>
             download_and_untar_files env dependency_url target_download_dir
               (tar_root_dir_prefix @ dependency_rev)
               (target_dir_prefix @ dependency_rev) w)))
      else (Inr (), w)))))"

text \<open>The inner loop (line 372): an exception of one entry ends the run.\<close>

fun download_entries ::
  "'w environment \<Rightarrow> string \<Rightarrow> (string \<times> DependencyDict) list \<Rightarrow> 'w world
     \<Rightarrow> (error + unit) \<times> 'w world" where
  "download_entries env data [] w = (Inr (), w)"
| "download_entries env data ((name, dependency_contents) # rest) w =
     (case download_dependency env data dependency_contents w of
        (Inl e, w') \<Rightarrow> (Inl e, w')
      | (Inr _, w') \<Rightarrow> download_entries env data rest w')"

text \<open>The outer loop (line 371).\<close>

fun download_categories ::
  "'w environment \<Rightarrow> (string \<times> (string \<times> DependencyDict) list) list \<Rightarrow> 'w world
     \<Rightarrow> (error + unit) \<times> 'w world" where
  "download_categories env [] w = (Inr (), w)"
| "download_categories env ((data, dependency) # rest) w =
     (case download_entries env data dependency w of
        (Inl e, w') \<Rightarrow> (Inl e, w')
      | (Inr _, w') \<Rightarrow> download_categories env rest w')"

text \<open>
  \<^verbatim>\<open>download_all_dependencies\<close>: validate, read the manifest a second time, download.
\<close>

definition download_all_dependencies ::
  "'w environment \<Rightarrow> string \<Rightarrow> 'w world \<Rightarrow> (error + unit) \<times> 'w world" where
  "download_all_dependencies env filepath w =
     (case validate_dependencies env filepath (outside w) of
        Inl e \<Rightarrow> (Inl e, w)
      | Inr _ \<Rightarrow>
          (case return_json env filepath (outside w) of
             Inl e \<Rightarrow> (Inl e, w)
           | Inr dependencies_data \<Rightarrow>
               download_categories env (dependencies dependencies_data) w))"

section \<open>The fetches of a manifest, as the specification resolves them\<close>










section \<open>Example data\<close>

text \<open>
  The entry of the example in section 8 of the specification, an entry of each of the
  other two formats, and a manifest that holds the three.
\<close>

definition example_zip_entry :: DependencyDict where
  "example_zip_entry =
     \<lparr>version = Some ''3'', downloadFormat = Some ''zip'',
      url = Some ''https://x/pkg-3.zip'',
      rootDirPrefix = Some ''pkg-'', rootDir = None,
      targetDirPrefix = Some ''pkg-'', targetDir = None,
      tarRootDirPrefix = None, files = None, bundle' = None\<rparr>"

definition example_files_entry :: DependencyDict where
  "example_files_entry =
     \<lparr>version = Some ''1.0'', downloadFormat = Some ''files'',
      url = Some ''https://x/lib'',
      rootDirPrefix = None, rootDir = None,
      targetDirPrefix = Some ''lib-'', targetDir = None,
      tarRootDirPrefix = None, files = Some [''a.js'', ''b.js''], bundle' = None\<rparr>"

definition example_tar_entry :: DependencyDict where
  "example_tar_entry =
     \<lparr>version = Some ''2'', downloadFormat = Some ''tar'',
      url = Some ''https://x/tool-2.tar.gz'',
      rootDirPrefix = None, rootDir = None,
      targetDirPrefix = Some ''tool-'', targetDir = None,
      tarRootDirPrefix = Some ''tool-src-'', files = None, bundle' = None\<rparr>"

definition example_manifest :: DependenciesDict where
  "example_manifest =
     \<lparr>dependencies =
        [(''frontend'', [(''pkg'', example_zip_entry), (''lib'', example_files_entry)]),
         (''oppiaTools'', [(''tool'', example_tar_entry)])]\<rparr>"

text \<open>
  A manifest whose first entry is well formed and whose last entry lacks the key
  \<^verbatim>\<open>version\<close>.
\<close>

definition example_bad_manifest :: DependenciesDict where
  "example_bad_manifest =
     \<lparr>dependencies =
        [(''frontend'', [(''pkg'', example_zip_entry)]),
         (''oppiaTools'', [(''tool'', example_tar_entry\<lparr>version := None\<rparr>)])]\<rparr>"

text \<open>
  An example environment. The state of the world is the list of the paths that exist.
  Every archive unpacks to the single folder \<open>root\<close>; with \<open>needs_user_agent\<close> the
  file that \<^verbatim>\<open>url_retrieve\<close> stores is not an archive, so that the first extraction
  raises.
\<close>

definition example_env :: "bool \<Rightarrow> string \<Rightarrow> string list environment" where
  "example_env needs_user_agent root =
     \<lparr>read_json = (\<lambda>filepath s.
        if filepath = ''dependencies.json'' then Inr example_manifest
        else if filepath = ''bad.json'' then Inr example_bad_manifest
        else Inl (Exception ''FileNotFoundError'')),
      os_path_exists = (\<lambda>path s. path \<in> set s),
      ensure_directory_exists = (\<lambda>path s. (Inr (), path # s)),
      url_retrieve = (\<lambda>source_url path s. (Inr (), path # s)),
      zip_extractall_file = (\<lambda>archive path s.
        if needs_user_agent then (Inl (Exception ''BadZipFile''), s)
        else (Inr (), os_path_join path root # s)),
      zip_extractall_bytes = (\<lambda>archive path s. (Inr (), os_path_join path root # s)),
      tar_extractall_file = (\<lambda>archive path s. (Inr (), os_path_join path root # s)),
      os_remove = (\<lambda>path s.
        if path \<in> set s then (Inr (), removeAll path s)
        else (Inl (Exception ''FileNotFoundError''), s)),
      os_rename = (\<lambda>src dst s.
        if src \<in> set s then (Inr (), dst # removeAll src s)
        else (Inl (Exception ''FileNotFoundError''), s)),
      url_open_read = (\<lambda>source_url headers s. (Inr [80, 75, 3, 4], s))\<rparr>"







section \<open>Properties of the validator\<close>

lemma mem_dict_keys:
  "''version'' \<in> set (dict_keys d) \<longleftrightarrow> version d \<noteq> None"
  "''downloadFormat'' \<in> set (dict_keys d) \<longleftrightarrow> downloadFormat d \<noteq> None"
  "''url'' \<in> set (dict_keys d) \<longleftrightarrow> url d \<noteq> None"
  "''rootDirPrefix'' \<in> set (dict_keys d) \<longleftrightarrow> rootDirPrefix d \<noteq> None"
  "''rootDir'' \<in> set (dict_keys d) \<longleftrightarrow> rootDir d \<noteq> None"
  "''targetDirPrefix'' \<in> set (dict_keys d) \<longleftrightarrow> targetDirPrefix d \<noteq> None"
  "''targetDir'' \<in> set (dict_keys d) \<longleftrightarrow> targetDir d \<noteq> None"
  "''tarRootDirPrefix'' \<in> set (dict_keys d) \<longleftrightarrow> tarRootDirPrefix d \<noteq> None"
  "''files'' \<in> set (dict_keys d) \<longleftrightarrow> files d \<noteq> None"
  by (simp_all add: dict_keys_def)

lemma check_mandatory_keys_eq:
  "check_mandatory_keys ks keys =
     (if set ks \<subseteq> set keys then Inr () else Inl (SystemExit 1))"
  by (induction ks) auto

lemma check_optional_key_pairs_eq:
  "check_optional_key_pairs ps keys =
     (if \<forall>p \<in> set ps. length (filter (\<lambda>key. key \<in> set keys) p) = 1
      then Inr () else Inl (SystemExit 1))"
  by (induction ps) (auto simp: Let_def)

lemma endswith_append: "endswith (s @ suffix) suffix"
  by (simp add: endswith_def)

lemma endswith_last: "endswith s suffix \<Longrightarrow> suffix \<noteq> [] \<Longrightarrow> last s = last suffix"
  unfolding endswith_def
  by (metis append_take_drop_id last_appendR)

lemma endswith_zip_not_tar_gz: "endswith s ''.zip'' \<Longrightarrow> \<not> endswith s ''.tar.gz''"
  using endswith_last [of s "''.zip''"] endswith_last [of s "''.tar.gz''"] by auto

lemma rpartition_append:
  "sep \<notin> set after \<Longrightarrow> rpartition (before @ sep # after) sep = (before, [sep], after)"
  by (simp add: rpartition_def dropWhile_append takeWhile_append)

lemma table_zip:
  "DOWNLOAD_FORMATS_TO_DEPENDENCIES_KEYS ''zip'' = Some fk \<longleftrightarrow>
     fk = \<lparr>mandatory_keys = [''version'', ''url'', ''downloadFormat''],
           optional_key_pairs =
             [[''rootDir'', ''rootDirPrefix''], [''targetDir'', ''targetDirPrefix'']]\<rparr>"
  by (auto simp: DOWNLOAD_FORMATS_TO_DEPENDENCIES_KEYS_def)

lemma table_files:
  "DOWNLOAD_FORMATS_TO_DEPENDENCIES_KEYS ''files'' = Some fk \<longleftrightarrow>
     fk = \<lparr>mandatory_keys =
             [''version'', ''url'', ''files'', ''targetDirPrefix'', ''downloadFormat''],
           optional_key_pairs = []\<rparr>"
  by (auto simp: DOWNLOAD_FORMATS_TO_DEPENDENCIES_KEYS_def)

lemma table_tar:
  "DOWNLOAD_FORMATS_TO_DEPENDENCIES_KEYS ''tar'' = Some fk \<longleftrightarrow>
     fk = \<lparr>mandatory_keys =
             [''version'', ''url'', ''tarRootDirPrefix'', ''targetDirPrefix'',
              ''downloadFormat''],
           optional_key_pairs = []\<rparr>"
  by (auto simp: DOWNLOAD_FORMATS_TO_DEPENDENCIES_KEYS_def)

text \<open>
  The three phases of the validator in one equation: a mandatory key is absent, or a
  pair does not hold exactly one member, or the check of the URL decides.
\<close>

lemma test_dependencies_syntax_eq:
  assumes "DOWNLOAD_FORMATS_TO_DEPENDENCIES_KEYS t = Some fk"
  shows "test_dependencies_syntax t d =
     (if \<not> set (mandatory_keys fk) \<subseteq> set (dict_keys d) then Inl (SystemExit 1)
      else if \<exists>p \<in> set (optional_key_pairs fk).
                 length (filter (\<lambda>key. key \<in> set (dict_keys d)) p) \<noteq> 1
        then Inl (SystemExit 1)
      else check_url t d)"
  using assms
  by (auto simp: test_dependencies_syntax_def check_mandatory_keys_eq
      check_optional_key_pairs_eq Let_def)

lemma check_url_zip:
  "url d = Some u \<Longrightarrow>
   check_url ''zip'' d =
     (if endswith (if CHR ''#'' \<in> set u then fst (rpartition u (CHR ''#'')) else u) ''.zip''
      then Inr () else Inl (SystemExit 1))"
  by (auto simp: check_url_def Let_def DOWNLOAD_FORMAT_ZIP_def DOWNLOAD_FORMAT_TAR_def
      dest: endswith_zip_not_tar_gz)

lemma check_url_tar:
  "url d = Some u \<Longrightarrow>
   check_url ''tar'' d =
     (if endswith (if CHR ''#'' \<in> set u then fst (rpartition u (CHR ''#'')) else u) ''.tar.gz''
      then Inr () else Inl (SystemExit 1))"
  by (auto simp: check_url_def Let_def DOWNLOAD_FORMAT_ZIP_def DOWNLOAD_FORMAT_TAR_def
      dest: endswith_zip_not_tar_gz)

lemma check_url_files:
  "url d = Some u \<Longrightarrow>
   check_url ''files'' d =
     (if endswith (if CHR ''#'' \<in> set u then fst (rpartition u (CHR ''#'')) else u) ''.zip'' \<or>
         endswith (if CHR ''#'' \<in> set u then fst (rpartition u (CHR ''#'')) else u) ''.tar.gz''
      then Inl (SystemExit 1) else Inr ())"
  by (auto simp: check_url_def Let_def DOWNLOAD_FORMAT_ZIP_def DOWNLOAD_FORMAT_TAR_def)

subsection \<open>Claims about the validator\<close>

text \<open>
  Claim C1, as amended. For an entry of format \<^verbatim>\<open>files\<close> that has all the mandatory
  keys of that format, the outcome of the validator is decided by the URL alone, and
  the suffix of the URL is not arbitrary: with the part from the last \<open>#\<close> on removed
  (when the URL contains \<open>#\<close>), a URL that ends in \<open>.zip\<close> or in \<open>.tar.gz\<close> makes the
  validator exit with status 1, and every other URL makes it return normally.
\<close>

theorem files_entry_validation:
  assumes "downloadFormat d = Some ''files''"
    and "DOWNLOAD_FORMATS_TO_DEPENDENCIES_KEYS ''files'' = Some format_keys"
    and "set (mandatory_keys format_keys) \<subseteq> set (dict_keys d)"
    and "url d = Some u"
  shows "test_dependencies_syntax ''files'' d =
     (if endswith (if CHR ''#'' \<in> set u then fst (rpartition u (CHR ''#'')) else u) ''.zip'' \<or>
         endswith (if CHR ''#'' \<in> set u then fst (rpartition u (CHR ''#'')) else u) ''.tar.gz''
      then Inl (SystemExit 1) else Inr ())"
proof -
  have "optional_key_pairs format_keys = []"
    using assms(2) by (simp add: table_files)
  then have "test_dependencies_syntax ''files'' d = check_url ''files'' d"
    using assms(2,3) by (simp add: test_dependencies_syntax_eq)
  then show ?thesis
    using assms(4) by (simp only: check_url_files)
qed

text \<open>The example entry of format \<^verbatim>\<open>files\<close> passes.\<close>

theorem files_entry_validation_witness:
  "downloadFormat example_files_entry = Some ''files'' \<and>
   url example_files_entry = Some ''https://x/lib'' \<and>
   test_dependencies_syntax ''files'' example_files_entry = Inr ()"
proof -
  have h1: "downloadFormat example_files_entry = Some ''files''"
    by (simp add: example_files_entry_def)
  have h2: "DOWNLOAD_FORMATS_TO_DEPENDENCIES_KEYS ''files'' =
      Some \<lparr>mandatory_keys =
             [''version'', ''url'', ''files'', ''targetDirPrefix'', ''downloadFormat''],
           optional_key_pairs = []\<rparr>"
    by (simp add: table_files)
  have h3: "set (mandatory_keys \<lparr>mandatory_keys =
             [''version'', ''url'', ''files'', ''targetDirPrefix'', ''downloadFormat''],
           optional_key_pairs = []\<rparr>) \<subseteq> set (dict_keys example_files_entry)"
    by (simp add: mem_dict_keys example_files_entry_def)
  have h4: "url example_files_entry = Some ''https://x/lib''"
    by (simp add: example_files_entry_def)
  show ?thesis
    using files_entry_validation [OF h1 h2 h3 h4] h1 h4 by (simp add: endswith_def)
qed

text \<open>
  Claim C1 as it is written fails: an entry of format \<^verbatim>\<open>files\<close> with all its
  mandatory keys and a URL that ends in \<open>.zip\<close> makes the validator exit with status 1.
\<close>

theorem files_zip_url_counterexample:
  "downloadFormat (example_files_entry\<lparr>url := Some ''https://x/lib.zip''\<rparr>) = Some ''files'' \<and>
   set [''version'', ''url'', ''files'', ''targetDirPrefix'', ''downloadFormat'']
     \<subseteq> set (dict_keys (example_files_entry\<lparr>url := Some ''https://x/lib.zip''\<rparr>)) \<and>
   test_dependencies_syntax ''files'' (example_files_entry\<lparr>url := Some ''https://x/lib.zip''\<rparr>)
     = Inl (SystemExit 1)"
  by (simp add: test_dependencies_syntax_def example_files_entry_def dict_keys_def
      DOWNLOAD_FORMATS_TO_DEPENDENCIES_KEYS_def check_url_def endswith_def
      DOWNLOAD_FORMAT_ZIP_def DOWNLOAD_FORMAT_TAR_def)

text \<open>
  Claim C2, as amended. The suffix is tested on the URL with the part from its last
  \<open>#\<close> on removed (when the URL contains \<open>#\<close>). For an entry of format \<^verbatim>\<open>zip\<close>
  whose URL, so shortened, does not end in \<open>.zip\<close>, and for an entry of format
  \<^verbatim>\<open>tar\<close> whose URL, so shortened, does not end in \<open>.tar.gz\<close>, the validator exits
  with status 1.
\<close>

theorem archive_url_mismatch_fails:
  assumes "url d = Some u"
  shows "(downloadFormat d = Some ''zip'' \<and>
          \<not> endswith (if CHR ''#'' \<in> set u then fst (rpartition u (CHR ''#'')) else u) ''.zip''
            \<longrightarrow> test_dependencies_syntax ''zip'' d = Inl (SystemExit 1)) \<and>
         (downloadFormat d = Some ''tar'' \<and>
          \<not> endswith (if CHR ''#'' \<in> set u then fst (rpartition u (CHR ''#'')) else u) ''.tar.gz''
            \<longrightarrow> test_dependencies_syntax ''tar'' d = Inl (SystemExit 1))"
proof -
  obtain fz where fz: "DOWNLOAD_FORMATS_TO_DEPENDENCIES_KEYS ''zip'' = Some fz"
    by (simp add: table_zip)
  obtain ft where ft: "DOWNLOAD_FORMATS_TO_DEPENDENCIES_KEYS ''tar'' = Some ft"
    by (simp add: table_tar)
  show ?thesis
    using assms
    by (simp add: test_dependencies_syntax_eq [OF fz] test_dependencies_syntax_eq [OF ft]
        check_url_zip check_url_tar)
qed

text \<open>A \<^verbatim>\<open>zip\<close> entry with a \<open>.tgz\<close> URL, and a \<^verbatim>\<open>tar\<close> entry whose URL ends in \<open>.tar.gz\<close> only inside the fragment.\<close>

theorem archive_url_mismatch_fails_witness:
  "test_dependencies_syntax ''zip'' (example_zip_entry\<lparr>url := Some ''https://x/pkg-3.tgz''\<rparr>)
     = Inl (SystemExit 1) \<and>
   test_dependencies_syntax ''tar'' (example_tar_entry\<lparr>url := Some ''https://x/tool-2.tar#a.tar.gz''\<rparr>)
     = Inl (SystemExit 1)"
proof -
  have z: "url (example_zip_entry\<lparr>url := Some ''https://x/pkg-3.tgz''\<rparr>)
             = Some ''https://x/pkg-3.tgz''"
    by simp
  have t: "url (example_tar_entry\<lparr>url := Some ''https://x/tool-2.tar#a.tar.gz''\<rparr>)
             = Some ''https://x/tool-2.tar#a.tar.gz''"
    by simp
  show ?thesis
    using archive_url_mismatch_fails [OF z] archive_url_mismatch_fails [OF t]
    by (simp add: example_zip_entry_def example_tar_entry_def endswith_def rpartition_def)
qed

text \<open>
  Claim C2 as it is written fails: the URL string \<open>https://x/pkg-3.zip#abc\<close> does not
  end in \<open>.zip\<close>, and the \<^verbatim>\<open>zip\<close> entry that carries it passes the validator.
\<close>

theorem zip_url_fragment_counterexample:
  "downloadFormat (example_zip_entry\<lparr>url := Some ''https://x/pkg-3.zip#abc''\<rparr>) = Some ''zip'' \<and>
   \<not> endswith ''https://x/pkg-3.zip#abc'' ''.zip'' \<and>
   test_dependencies_syntax ''zip'' (example_zip_entry\<lparr>url := Some ''https://x/pkg-3.zip#abc''\<rparr>)
     = Inr ()"
  by (simp add: test_dependencies_syntax_def example_zip_entry_def dict_keys_def
      DOWNLOAD_FORMATS_TO_DEPENDENCIES_KEYS_def check_url_def endswith_def rpartition_def
      DOWNLOAD_FORMAT_ZIP_def DOWNLOAD_FORMAT_TAR_def)

text \<open>
  Claim C4. For every format of the table and every optional key pair of that format:
  when the entry does not hold exactly one member of some pair, the validator exits
  with status 1; when it holds exactly one member of every pair, the loop over the
  pairs returns normally, and with all mandatory keys present the outcome is that of
  the check of the URL. For \<^verbatim>\<open>zip\<close> the pairs are \<open>rootDir\<close>, \<open>rootDirPrefix\<close> and
  \<open>targetDir\<close>, \<open>targetDirPrefix\<close>: both members present or both absent makes the
  validator exit with status 1.
\<close>

theorem optional_key_pairs_exactly_one:
  assumes "DOWNLOAD_FORMATS_TO_DEPENDENCIES_KEYS t = Some format_keys"
  shows "((\<exists>optional_keys \<in> set (optional_key_pairs format_keys).
            length (filter (\<lambda>key. key \<in> set (dict_keys d)) optional_keys) \<noteq> 1)
          \<longrightarrow> test_dependencies_syntax t d = Inl (SystemExit 1)) \<and>
         ((\<forall>optional_keys \<in> set (optional_key_pairs format_keys).
            length (filter (\<lambda>key. key \<in> set (dict_keys d)) optional_keys) = 1)
          \<longrightarrow> check_optional_key_pairs (optional_key_pairs format_keys) (dict_keys d) = Inr ()
              \<and> (set (mandatory_keys format_keys) \<subseteq> set (dict_keys d)
                   \<longrightarrow> test_dependencies_syntax t d = check_url t d)) \<and>
         (t = ''zip'' \<and>
          ((rootDir d = None) = (rootDirPrefix d = None) \<or>
           (targetDir d = None) = (targetDirPrefix d = None))
          \<longrightarrow> test_dependencies_syntax t d = Inl (SystemExit 1))"
proof (intro conjI impI)
  assume "\<exists>optional_keys \<in> set (optional_key_pairs format_keys).
            length (filter (\<lambda>key. key \<in> set (dict_keys d)) optional_keys) \<noteq> 1"
  then show "test_dependencies_syntax t d = Inl (SystemExit 1)"
    by (simp add: test_dependencies_syntax_eq [OF assms])
next
  assume ok: "\<forall>optional_keys \<in> set (optional_key_pairs format_keys).
            length (filter (\<lambda>key. key \<in> set (dict_keys d)) optional_keys) = 1"
  then show "check_optional_key_pairs (optional_key_pairs format_keys) (dict_keys d) = Inr ()"
    by (simp add: check_optional_key_pairs_eq)
  assume "set (mandatory_keys format_keys) \<subseteq> set (dict_keys d)"
  with ok show "test_dependencies_syntax t d = check_url t d"
    by (simp add: test_dependencies_syntax_eq [OF assms])
next
  assume z: "t = ''zip'' \<and>
          ((rootDir d = None) = (rootDirPrefix d = None) \<or>
           (targetDir d = None) = (targetDirPrefix d = None))"
  then have fk: "format_keys = \<lparr>mandatory_keys = [''version'', ''url'', ''downloadFormat''],
           optional_key_pairs =
             [[''rootDir'', ''rootDirPrefix''], [''targetDir'', ''targetDirPrefix'']]\<rparr>"
    using assms by (simp add: table_zip)
  from z have "\<exists>optional_keys \<in> set (optional_key_pairs format_keys).
            length (filter (\<lambda>key. key \<in> set (dict_keys d)) optional_keys) \<noteq> 1"
    unfolding fk by (auto simp: mem_dict_keys)
  then show "test_dependencies_syntax t d = Inl (SystemExit 1)"
    by (simp add: test_dependencies_syntax_eq [OF assms])
qed

text \<open>
  The example entry with both \<open>rootDir\<close> and \<open>rootDirPrefix\<close>, the example entry with
  neither \<open>targetDir\<close> nor \<open>targetDirPrefix\<close>, and the example entry itself.
\<close>

theorem optional_key_pairs_exactly_one_witness:
  "test_dependencies_syntax ''zip'' (example_zip_entry\<lparr>rootDir := Some ''pkg''\<rparr>)
     = Inl (SystemExit 1) \<and>
   test_dependencies_syntax ''zip'' (example_zip_entry\<lparr>targetDirPrefix := None\<rparr>)
     = Inl (SystemExit 1) \<and>
   check_optional_key_pairs
     [[''rootDir'', ''rootDirPrefix''], [''targetDir'', ''targetDirPrefix'']]
     (dict_keys example_zip_entry) = Inr () \<and>
   test_dependencies_syntax ''zip'' example_zip_entry = check_url ''zip'' example_zip_entry"
proof -
  let ?fk = "\<lparr>mandatory_keys = [''version'', ''url'', ''downloadFormat''],
           optional_key_pairs =
             [[''rootDir'', ''rootDirPrefix''], [''targetDir'', ''targetDirPrefix'']]\<rparr>"
  have h: "DOWNLOAD_FORMATS_TO_DEPENDENCIES_KEYS ''zip'' = Some ?fk"
    by (simp add: table_zip)
  show ?thesis
    using optional_key_pairs_exactly_one [OF h, of "example_zip_entry\<lparr>rootDir := Some ''pkg''\<rparr>"]
      optional_key_pairs_exactly_one [OF h, of "example_zip_entry\<lparr>targetDirPrefix := None\<rparr>"]
      optional_key_pairs_exactly_one [OF h, of example_zip_entry]
    by (simp add: example_zip_entry_def mem_dict_keys)
qed

text \<open>
  Claim C10. For a URL \<open>before#fragment\<close>, where \<open>fragment\<close> holds no further \<open>#\<close> (so
  that \<open>before\<close> is the part in front of the last \<open>#\<close>), and an entry that passes the
  checks of the keys, the suffix check is made on \<open>before\<close>: a \<^verbatim>\<open>zip\<close> entry passes
  exactly when \<open>before\<close> ends in \<open>.zip\<close>, a \<^verbatim>\<open>tar\<close> entry exactly when it ends in
  \<open>.tar.gz\<close>. In particular \<open>base.zip#fragment\<close> passes for \<^verbatim>\<open>zip\<close> and
  \<open>base.tar.gz#fragment\<close> passes for \<^verbatim>\<open>tar\<close>.
\<close>

theorem url_fragment_stripped:
  assumes "url d = Some (before @ ''#'' @ fragment)"
    and "CHR ''#'' \<notin> set fragment"
    and "DOWNLOAD_FORMATS_TO_DEPENDENCIES_KEYS t = Some format_keys"
    and "set (mandatory_keys format_keys) \<subseteq> set (dict_keys d)"
    and "\<forall>optional_keys \<in> set (optional_key_pairs format_keys).
            length (filter (\<lambda>key. key \<in> set (dict_keys d)) optional_keys) = 1"
  shows "(t = ''zip'' \<longrightarrow>
            test_dependencies_syntax t d =
              (if endswith before ''.zip'' then Inr () else Inl (SystemExit 1))) \<and>
         (t = ''tar'' \<longrightarrow>
            test_dependencies_syntax t d =
              (if endswith before ''.tar.gz'' then Inr () else Inl (SystemExit 1))) \<and>
         (t = ''files'' \<longrightarrow>
            test_dependencies_syntax t d =
              (if endswith before ''.zip'' \<or> endswith before ''.tar.gz''
               then Inl (SystemExit 1) else Inr ())) \<and>
         (t = ''zip'' \<and> before = base @ ''.zip'' \<longrightarrow> test_dependencies_syntax t d = Inr ()) \<and>
         (t = ''tar'' \<and> before = base @ ''.tar.gz'' \<longrightarrow> test_dependencies_syntax t d = Inr ())"
proof -
  have strip: "(if CHR ''#'' \<in> set (before @ ''#'' @ fragment)
                then fst (rpartition (before @ ''#'' @ fragment) (CHR ''#''))
                else before @ ''#'' @ fragment) = before"
    using assms(2) rpartition_append [of "CHR ''#''" fragment before] by simp
  have "test_dependencies_syntax t d = check_url t d"
    using assms(4,5) by (simp add: test_dependencies_syntax_eq [OF assms(3)])
  then show ?thesis
    using check_url_zip [OF assms(1)] check_url_tar [OF assms(1)] check_url_files [OF assms(1)]
    unfolding strip by (auto simp: endswith_append)
qed

text \<open>
  A fragment after \<open>.zip\<close> is ignored; of two \<open>#\<close> only the last one starts the part
  that is removed.
\<close>

theorem url_fragment_stripped_witness:
  "\<not> endswith ''https://x/pkg-3.zip#abc'' ''.zip'' \<and>
   test_dependencies_syntax ''zip'' (example_zip_entry\<lparr>url := Some ''https://x/pkg-3.zip#abc''\<rparr>)
     = Inr () \<and>
   test_dependencies_syntax ''zip'' (example_zip_entry\<lparr>url := Some ''https://x/pkg-3.zip#a#b''\<rparr>)
     = Inl (SystemExit 1)"
proof -
  let ?fk = "\<lparr>mandatory_keys = [''version'', ''url'', ''downloadFormat''],
           optional_key_pairs =
             [[''rootDir'', ''rootDirPrefix''], [''targetDir'', ''targetDirPrefix'']]\<rparr>"
  let ?d = "example_zip_entry\<lparr>url := Some ''https://x/pkg-3.zip#abc''\<rparr>"
  let ?d' = "example_zip_entry\<lparr>url := Some ''https://x/pkg-3.zip#a#b''\<rparr>"
  have h1: "url ?d = Some (''https://x/pkg-3.zip'' @ ''#'' @ ''abc'')" by simp
  have h1': "url ?d' = Some (''https://x/pkg-3.zip#a'' @ ''#'' @ ''b'')" by simp
  have h2: "CHR ''#'' \<notin> set ''abc''" by simp
  have h2': "CHR ''#'' \<notin> set ''b''" by simp
  have h3: "DOWNLOAD_FORMATS_TO_DEPENDENCIES_KEYS ''zip'' = Some ?fk"
    by (simp add: table_zip)
  have h4: "set (mandatory_keys ?fk) \<subseteq> set (dict_keys ?d)"
    by (simp add: mem_dict_keys example_zip_entry_def)
  have h4': "set (mandatory_keys ?fk) \<subseteq> set (dict_keys ?d')"
    by (simp add: mem_dict_keys example_zip_entry_def)
  have h5: "\<forall>optional_keys \<in> set (optional_key_pairs ?fk).
            length (filter (\<lambda>key. key \<in> set (dict_keys ?d)) optional_keys) = 1"
    by (simp add: mem_dict_keys example_zip_entry_def)
  have h5': "\<forall>optional_keys \<in> set (optional_key_pairs ?fk).
            length (filter (\<lambda>key. key \<in> set (dict_keys ?d')) optional_keys) = 1"
    by (simp add: mem_dict_keys example_zip_entry_def)
  show ?thesis
    using url_fragment_stripped [OF h1 h2 h3 h4 h5, of "''https://x/pkg-3''"]
      url_fragment_stripped [OF h1' h2' h3 h4' h5', of "[]"]
    by (simp add: endswith_def)
qed

section \<open>Properties of the orchestrator\<close>

lemma check_url_exit: "check_url t d = Inl e \<Longrightarrow> exit_status e = 1"
  unfolding check_url_def Let_def
  by (cases "url d") (auto split: if_splits)

lemma test_dependencies_syntax_exit:
  assumes "test_dependencies_syntax t d = Inl e"
  shows "exit_status e = 1"
proof (cases "DOWNLOAD_FORMATS_TO_DEPENDENCIES_KEYS t")
  case None
  with assms show ?thesis
    by (auto simp: test_dependencies_syntax_def)
next
  case (Some fk)
  from assms have "e = SystemExit 1 \<or> check_url t d = Inl e"
    unfolding test_dependencies_syntax_eq [OF Some] by (auto split: if_splits)
  then show ?thesis
    using check_url_exit by auto
qed

lemma validate_entries_exit:
  "validate_entries ds = Inl e \<Longrightarrow> exit_status e = 1"
proof (induction ds)
  case Nil
  then show ?case by simp
next
  case (Cons entry ds)
  obtain name d where entry: "entry = (name, d)" by (cases entry)
  from Cons show ?case
    unfolding entry
    by (auto split: option.splits sum.splits dest: test_dependencies_syntax_exit)
qed

lemma validate_categories_exit:
  "validate_categories cs = Inl e \<Longrightarrow> exit_status e = 1"
proof (induction cs)
  case Nil
  then show ?case by simp
next
  case (Cons c cs)
  obtain category ds where c: "c = (category, ds)" by (cases c)
  from Cons show ?case
    unfolding c by (auto split: sum.splits dest: validate_entries_exit)
qed

text \<open>An entry that does not pass makes the loop over its category fail.\<close>

lemma validate_entries_malformed:
  assumes "(name, d) \<in> set ds"
    and "downloadFormat d = None \<or>
         (\<exists>t. downloadFormat d = Some t \<and> test_dependencies_syntax t d \<noteq> Inr ())"
  shows "\<exists>e. validate_entries ds = Inl e"
  using assms
proof (induction ds)
  case Nil
  then show ?case by simp
next
  case (Cons entry ds)
  obtain name' d' where entry: "entry = (name', d')" by (cases entry)
  show ?case
  proof (cases "validate_entries [entry]")
    case (Inl e)
    then show ?thesis
      unfolding entry by (auto split: option.splits sum.splits)
  next
    case (Inr u)
    then have ok: "\<exists>t. downloadFormat d' = Some t \<and> test_dependencies_syntax t d' = Inr ()"
      unfolding entry by (auto split: option.splits sum.splits)
    with Cons.prems have "(name, d) \<in> set ds"
      unfolding entry by auto
    with Cons.IH Cons.prems(2) obtain e where "validate_entries ds = Inl e" by blast
    with ok show ?thesis
      unfolding entry by auto
  qed
qed

lemma validate_categories_malformed:
  assumes "(category, ds) \<in> set cs"
    and "\<exists>e. validate_entries ds = Inl e"
  shows "\<exists>e. validate_categories cs = Inl e"
  using assms
proof (induction cs)
  case Nil
  then show ?case by simp
next
  case (Cons c cs)
  obtain category' ds' where c: "c = (category', ds')" by (cases c)
  show ?case
  proof (cases "validate_entries ds'")
    case (Inl e)
    then show ?thesis unfolding c by simp
  next
    case (Inr u)
    with Cons.prems have "(category, ds) \<in> set cs"
      unfolding c by auto
    with Cons.IH Cons.prems(2) obtain e where "validate_categories cs = Inl e" by blast
    with Inr show ?thesis unfolding c by simp
  qed
qed

text \<open>A failed validation ends \<^verbatim>\<open>download_all_dependencies\<close> with the world as it was.\<close>

lemma download_all_dependencies_invalid:
  "validate_dependencies env filepath (outside w) = Inl e \<Longrightarrow>
   download_all_dependencies env filepath w = (Inl e, w)"
  by (simp add: download_all_dependencies_def)

lemma malformed_manifest_fails:
  assumes "return_json env filepath (outside w) = Inr dependencies_data"
    and "(category, dependency) \<in> set (dependencies dependencies_data)"
    and "(name, dependency_contents) \<in> set dependency"
    and "downloadFormat dependency_contents = None \<or>
         (\<exists>t. downloadFormat dependency_contents = Some t \<and>
              test_dependencies_syntax t dependency_contents \<noteq> Inr ())"
  shows "\<exists>e. validate_dependencies env filepath (outside w) = Inl e \<and> exit_status e = 1 \<and>
             download_all_dependencies env filepath w = (Inl e, w)"
proof -
  from assms(3,4) have "\<exists>e. validate_entries dependency = Inl e"
    by (rule validate_entries_malformed)
  with assms(2) obtain e where e: "validate_categories (dependencies dependencies_data) = Inl e"
    using validate_categories_malformed by blast
  then have v: "validate_dependencies env filepath (outside w) = Inl e"
    using assms(1) by (simp add: validate_dependencies_def)
  moreover from e have "exit_status e = 1"
    by (rule validate_categories_exit)
  ultimately show ?thesis
    using download_all_dependencies_invalid [OF v] by blast
qed

subsection \<open>Claims about the orchestrator\<close>

text \<open>
  Claim C3. An entry that lacks a mandatory key of its declared format makes the
  validator exit with status 1; and when such an entry stands anywhere in the
  manifest, \<^verbatim>\<open>download_all_dependencies\<close> ends with an error of non-zero exit status
  and leaves the world as it was: the list of calls is unchanged, so nothing was
  downloaded for any entry.
\<close>

theorem missing_mandatory_key_fails:
  assumes "downloadFormat dependency_contents = Some t"
    and "DOWNLOAD_FORMATS_TO_DEPENDENCIES_KEYS t = Some format_keys"
    and "key \<in> set (mandatory_keys format_keys)"
    and "key \<notin> set (dict_keys dependency_contents)"
  shows "test_dependencies_syntax t dependency_contents = Inl (SystemExit 1) \<and>
         exit_status (SystemExit 1) \<noteq> 0 \<and>
         (return_json env filepath (outside w) = Inr dependencies_data \<and>
          (category, dependency) \<in> set (dependencies dependencies_data) \<and>
          (name, dependency_contents) \<in> set dependency \<longrightarrow>
          (\<exists>e. exit_status e \<noteq> 0 \<and>
               download_all_dependencies env filepath w = (Inl e, w)))"
proof -
  have fails: "test_dependencies_syntax t dependency_contents = Inl (SystemExit 1)"
    using assms(3,4) by (auto simp: test_dependencies_syntax_eq [OF assms(2)])
  then have bad: "downloadFormat dependency_contents = None \<or>
         (\<exists>t. downloadFormat dependency_contents = Some t \<and>
              test_dependencies_syntax t dependency_contents \<noteq> Inr ())"
    using assms(1) by simp
  have "\<exists>e. exit_status e \<noteq> 0 \<and> download_all_dependencies env filepath w = (Inl e, w)"
    if "return_json env filepath (outside w) = Inr dependencies_data"
      and "(category, dependency) \<in> set (dependencies dependencies_data)"
      and "(name, dependency_contents) \<in> set dependency"
    using malformed_manifest_fails [OF that bad] by auto
  with fails show ?thesis by simp
qed

text \<open>
  The manifest \<open>bad.json\<close> of the example environment: its last entry, of format
  \<^verbatim>\<open>tar\<close>, lacks \<open>version\<close>; the well-formed \<^verbatim>\<open>zip\<close> entry in front of it is not
  downloaded.
\<close>

theorem missing_mandatory_key_fails_witness:
  "test_dependencies_syntax ''tar'' (example_tar_entry\<lparr>version := None\<rparr>) = Inl (SystemExit 1) \<and>
   (\<exists>e. exit_status e \<noteq> 0 \<and>
        download_all_dependencies (example_env False ''pkg-3'') ''bad.json''
          \<lparr>outside = [], calls = []\<rparr> = (Inl e, \<lparr>outside = [], calls = []\<rparr>))"
proof -
  let ?d = "example_tar_entry\<lparr>version := None\<rparr>"
  let ?fk = "\<lparr>mandatory_keys =
             [''version'', ''url'', ''tarRootDirPrefix'', ''targetDirPrefix'',
              ''downloadFormat''],
           optional_key_pairs = []\<rparr>"
  have h1: "downloadFormat ?d = Some ''tar''"
    by (simp add: example_tar_entry_def)
  have h2: "DOWNLOAD_FORMATS_TO_DEPENDENCIES_KEYS ''tar'' = Some ?fk"
    by (simp add: table_tar)
  have h3: "''version'' \<in> set (mandatory_keys ?fk)"
    by simp
  have h4: "''version'' \<notin> set (dict_keys ?d)"
    by (simp add: mem_dict_keys)
  have m: "return_json (example_env False ''pkg-3'') ''bad.json''
             (outside \<lparr>outside = [], calls = []\<rparr>) = Inr example_bad_manifest"
    by (simp add: return_json_def example_env_def)
  have c: "(''oppiaTools'', [(''tool'', ?d)]) \<in> set (dependencies example_bad_manifest)"
    by (simp add: example_bad_manifest_def)
  have n: "(''tool'', ?d) \<in> set [(''tool'', ?d)]"
    by simp
  show ?thesis
    using missing_mandatory_key_fails [OF h1 h2 h3 h4,
        of "example_env False ''pkg-3''" "''bad.json''" "\<lparr>outside = [], calls = []\<rparr>"
           example_bad_manifest "''oppiaTools''" "[(''tool'', ?d)]" "''tool''"]
      m c n
    by blast
qed

text \<open>
  Claim C8. \<^verbatim>\<open>download_all_dependencies\<close> validates the whole manifest first: when
  the validation fails, with whatever error, the function ends with that error and the
  world as it was, the list of calls included; and an entry of any category that has no
  \<open>downloadFormat\<close> or does not pass \<^verbatim>\<open>test_dependencies_syntax\<close> makes the validation
  fail with a non-zero exit status, so that no entry, well formed or not, is downloaded.
\<close>

theorem validation_before_any_download:
  "(validate_dependencies env filepath (outside w) = Inl e \<longrightarrow>
      download_all_dependencies env filepath w = (Inl e, w)) \<and>
   (return_json env filepath (outside w) = Inr dependencies_data \<and>
    (category, dependency) \<in> set (dependencies dependencies_data) \<and>
    (name, dependency_contents) \<in> set dependency \<and>
    (downloadFormat dependency_contents = None \<or>
     (\<exists>t. downloadFormat dependency_contents = Some t \<and>
          test_dependencies_syntax t dependency_contents \<noteq> Inr ())) \<longrightarrow>
    (\<exists>e'. validate_dependencies env filepath (outside w) = Inl e' \<and> exit_status e' \<noteq> 0 \<and>
          download_all_dependencies env filepath w = (Inl e', w) \<and>
          calls (snd (download_all_dependencies env filepath w)) = calls w))"
proof (intro conjI impI)
  assume "validate_dependencies env filepath (outside w) = Inl e"
  then show "download_all_dependencies env filepath w = (Inl e, w)"
    by (rule download_all_dependencies_invalid)
next
  assume a: "return_json env filepath (outside w) = Inr dependencies_data \<and>
    (category, dependency) \<in> set (dependencies dependencies_data) \<and>
    (name, dependency_contents) \<in> set dependency \<and>
    (downloadFormat dependency_contents = None \<or>
     (\<exists>t. downloadFormat dependency_contents = Some t \<and>
          test_dependencies_syntax t dependency_contents \<noteq> Inr ()))"
  then obtain e' where "validate_dependencies env filepath (outside w) = Inl e'"
      "exit_status e' = 1" "download_all_dependencies env filepath w = (Inl e', w)"
    using malformed_manifest_fails [of env filepath w dependencies_data category dependency
        name dependency_contents]
    by blast
  then show "\<exists>e'. validate_dependencies env filepath (outside w) = Inl e' \<and> exit_status e' \<noteq> 0 \<and>
          download_all_dependencies env filepath w = (Inl e', w) \<and>
          calls (snd (download_all_dependencies env filepath w)) = calls w"
    by simp
qed

text \<open>
  In \<open>bad.json\<close> the first category is well formed and the second holds the entry
  without \<open>version\<close>: the run ends with \<^verbatim>\<open>sys.exit(1)\<close> and an empty list of calls.
\<close>

theorem validation_before_any_download_witness:
  "validate_dependencies (example_env True ''pkg-3'') ''bad.json'' [] = Inl (SystemExit 1) \<and>
   download_all_dependencies (example_env True ''pkg-3'') ''bad.json''
     \<lparr>outside = [], calls = []\<rparr> = (Inl (SystemExit 1), \<lparr>outside = [], calls = []\<rparr>)"
proof -
  have v: "validate_dependencies (example_env True ''pkg-3'') ''bad.json''
             (outside \<lparr>outside = [], calls = []\<rparr>) = Inl (SystemExit 1)"
    by (simp add: validate_dependencies_def return_json_def example_env_def
        example_bad_manifest_def example_zip_entry_def example_tar_entry_def
        test_dependencies_syntax_def dict_keys_def DOWNLOAD_FORMATS_TO_DEPENDENCIES_KEYS_def
        check_url_def endswith_def DOWNLOAD_FORMAT_ZIP_def DOWNLOAD_FORMAT_TAR_def)
  show ?thesis
    using validation_before_any_download [of "example_env True ''pkg-3''" "''bad.json''"
        "\<lparr>outside = [], calls = []\<rparr>" "SystemExit 1"] v
    by simp
qed

section \<open>Properties of the fetchers\<close>




lemma TMP_UNZIP_PATH_eq: "TMP_UNZIP_PATH = ''./tmp_unzip.zip''"
  by (simp add: TMP_UNZIP_PATH_def os_path_join_def)




subsection \<open>Claims about the fetchers\<close>

text \<open>
  Claim C5. When the path \<^verbatim>\<open>os.path.join(target_parent_dir, target_root_name)\<close> exists,
  \<^verbatim>\<open>download_and_unzip_files\<close> and \<^verbatim>\<open>download_and_untar_files\<close> return at once: the
  world is the one they were called in, and the list of calls is unchanged, so that no
  primitive ran, neither a network call nor one that writes a file.
\<close>

theorem fetch_skipped_when_target_exists:
  assumes "os_path_exists env (os_path_join target_parent_dir target_root_name) (outside w)"
  shows "download_and_unzip_files env source_url target_parent_dir zip_root_name
           target_root_name w = (Inr (), w) \<and>
         download_and_untar_files env source_url target_parent_dir tar_root_name
           target_root_name w = (Inr (), w)"
  using assms
  by (simp add: download_and_unzip_files_def download_and_untar_files_def)

text \<open>The example entry when \<open>./third_party/static/pkg-3\<close> is already there.\<close>

theorem fetch_skipped_when_target_exists_witness:
  "os_path_exists (example_env False ''pkg-3'') (os_path_join ''./third_party/static'' ''pkg-3'')
     [''./third_party/static/pkg-3''] \<and>
   download_and_unzip_files (example_env False ''pkg-3'') ''https://x/pkg-3.zip''
     ''./third_party/static'' ''pkg-3'' ''pkg-3''
     \<lparr>outside = [''./third_party/static/pkg-3''], calls = []\<rparr>
     = (Inr (), \<lparr>outside = [''./third_party/static/pkg-3''], calls = []\<rparr>) \<and>
   download_and_untar_files (example_env False ''pkg-3'') ''https://x/pkg-3.tar.gz''
     ''./third_party/static'' ''pkg-3'' ''pkg-3''
     \<lparr>outside = [''./third_party/static/pkg-3''], calls = []\<rparr>
     = (Inr (), \<lparr>outside = [''./third_party/static/pkg-3''], calls = []\<rparr>)"
proof -
  have h: "os_path_exists (example_env False ''pkg-3'')
             (os_path_join ''./third_party/static'' ''pkg-3'')
             (outside \<lparr>outside = [''./third_party/static/pkg-3''], calls = []\<rparr>)"
    by (simp add: example_env_def os_path_join_def)
  show ?thesis
    using fetch_skipped_when_target_exists [OF h,
        where source_url = "''https://x/pkg-3.zip''" and zip_root_name = "''pkg-3''"]
      fetch_skipped_when_target_exists [OF h,
        where source_url = "''https://x/pkg-3.tar.gz''" and tar_root_name = "''pkg-3''"] h
    by simp
qed

subsection \<open>The orchestrator on a valid manifest\<close>











subsection \<open>Claim about the resolution of names\<close>




subsection \<open>Calls of the primitives\<close>

lemma perform_Inr:
  assumes "perform c f w = (Inr r, w')"
  shows "f (outside w) = (Inr r, outside w') \<and> calls w' = calls w @ [c]"
  using assms by (auto simp: perform_def split: prod.splits)

subsection \<open>The loop of the file-list fetcher\<close>



subsection \<open>Claim about the file-list fetcher\<close>




subsection \<open>The temporary archive of the zip fetcher\<close>

lemma perform_calls:
  assumes "perform c f w = (r, w')"
  shows "calls w' = calls w @ [c]"
  using assms by (auto simp: perform_def split: prod.splits)

text \<open>
  The \<^verbatim>\<open>try\<close> block: when it ends without an exception its last step was the removal
  of the temporary file; when it raises, it raised in the extraction or in the removal.
\<close>

lemma unzip_try_Inr:
  assumes "unzip_try env target_parent_dir w = (Inr (), w')"
  shows "\<exists>s. os_remove env TMP_UNZIP_PATH s = (Inr (), outside w') \<and>
             calls w' = calls w @ [ZipExtractFile TMP_UNZIP_PATH target_parent_dir,
                                   OsRemove TMP_UNZIP_PATH]"
proof -
  obtain r w1 where x: "perform (ZipExtractFile TMP_UNZIP_PATH target_parent_dir)
      (zip_extractall_file env TMP_UNZIP_PATH target_parent_dir) w = (r, w1)"
    by (cases "perform (ZipExtractFile TMP_UNZIP_PATH target_parent_dir)
      (zip_extractall_file env TMP_UNZIP_PATH target_parent_dir) w")
  with assms have rm: "perform (OsRemove TMP_UNZIP_PATH) (os_remove env TMP_UNZIP_PATH) w1 =
                         (Inr (), w')"
    by (auto simp: unzip_try_def split: sum.splits)
  from perform_Inr [OF rm] perform_calls [OF x] show ?thesis
    by auto
qed

lemma unzip_try_Inl:
  assumes "unzip_try env target_parent_dir w = (Inl e, w')"
  shows "calls w' = calls w @ [ZipExtractFile TMP_UNZIP_PATH target_parent_dir] \<or>
         calls w' = calls w @ [ZipExtractFile TMP_UNZIP_PATH target_parent_dir,
                               OsRemove TMP_UNZIP_PATH]"
proof -
  obtain r w1 where x: "perform (ZipExtractFile TMP_UNZIP_PATH target_parent_dir)
      (zip_extractall_file env TMP_UNZIP_PATH target_parent_dir) w = (r, w1)"
    by (cases "perform (ZipExtractFile TMP_UNZIP_PATH target_parent_dir)
      (zip_extractall_file env TMP_UNZIP_PATH target_parent_dir) w")
  show ?thesis
  proof (cases r)
    case (Inl e')
    with x assms have "w' = w1"
      by (simp add: unzip_try_def)
    with perform_calls [OF x] show ?thesis by simp
  next
    case (Inr u)
    with x assms have "perform (OsRemove TMP_UNZIP_PATH) (os_remove env TMP_UNZIP_PATH) w1 =
                         (Inl e, w')"
      by (simp add: unzip_try_def)
    from perform_calls [OF this] perform_calls [OF x] show ?thesis by simp
  qed
qed

text \<open>
  The handler: when it ends without an exception, the temporary file does not exist
  after its first statement, and the remaining two calls are the request with the
  user-agent header and the extraction from memory.
\<close>

lemma unzip_except_Inr:
  assumes run: "unzip_except env source_url target_parent_dir w = (Inr (), w')"
    and removed: "\<forall>s s'. os_remove env TMP_UNZIP_PATH s = (Inr (), s') \<longrightarrow>
                    \<not> os_path_exists env TMP_UNZIP_PATH s'"
    and opened: "\<forall>s s' file_stream.
                   url_open_read env source_url [(''User-agent'', ''python'')] s =
                     (Inr file_stream, s') \<and>
                   \<not> os_path_exists env TMP_UNZIP_PATH s \<longrightarrow>
                   \<not> os_path_exists env TMP_UNZIP_PATH s'"
    and extracted: "\<forall>s s' file_stream.
                   zip_extractall_bytes env file_stream target_parent_dir s = (Inr (), s') \<and>
                   \<not> os_path_exists env TMP_UNZIP_PATH s \<longrightarrow>
                   \<not> os_path_exists env TMP_UNZIP_PATH s'"
  shows "\<not> os_path_exists env TMP_UNZIP_PATH (outside w') \<and>
         (\<exists>file_stream.
            calls w' = calls w @
              (if os_path_exists env TMP_UNZIP_PATH (outside w)
               then [OsRemove TMP_UNZIP_PATH] else []) @
              [UrlOpen source_url [(''User-agent'', ''python'')],
               ZipExtractBytes file_stream target_parent_dir])"
proof -
  let ?first = "if os_path_exists env TMP_UNZIP_PATH (outside w)
                then perform (OsRemove TMP_UNZIP_PATH) (os_remove env TMP_UNZIP_PATH) w
                else (Inr (), w)"
  obtain r1 w1 where f: "?first = (r1, w1)"
    by (cases ?first)
  with run have r1: "r1 = Inr ()"
    unfolding unzip_except_def by (cases r1) auto
  have gone: "\<not> os_path_exists env TMP_UNZIP_PATH (outside w1)"
  proof (cases "os_path_exists env TMP_UNZIP_PATH (outside w)")
    case True
    with f r1 have "perform (OsRemove TMP_UNZIP_PATH) (os_remove env TMP_UNZIP_PATH) w =
                      (Inr (), w1)"
      by simp
    from perform_Inr [OF this] removed show ?thesis by blast
  next
    case False
    with f show ?thesis by simp
  qed
  have c1: "calls w1 = calls w @
              (if os_path_exists env TMP_UNZIP_PATH (outside w)
               then [OsRemove TMP_UNZIP_PATH] else [])"
  proof (cases "os_path_exists env TMP_UNZIP_PATH (outside w)")
    case True
    with f have "perform (OsRemove TMP_UNZIP_PATH) (os_remove env TMP_UNZIP_PATH) w = (r1, w1)"
      by simp
    from perform_calls [OF this] True show ?thesis by simp
  next
    case False
    with f show ?thesis by simp
  qed
  obtain r2 w2 where o: "perform (UrlOpen source_url [(''User-agent'', ''python'')])
      (url_open_read env source_url [(''User-agent'', ''python'')]) w1 = (r2, w2)"
    by (cases "perform (UrlOpen source_url [(''User-agent'', ''python'')])
      (url_open_read env source_url [(''User-agent'', ''python'')]) w1")
  from run f r1 o obtain file_stream where r2: "r2 = Inr file_stream"
    and x: "perform (ZipExtractBytes file_stream target_parent_dir)
              (zip_extractall_bytes env file_stream target_parent_dir) w2 = (Inr (), w')"
    unfolding unzip_except_def by (cases r2) auto
  from perform_Inr [OF o [unfolded r2]]
  have o': "url_open_read env source_url [(''User-agent'', ''python'')] (outside w1) =
              (Inr file_stream, outside w2)"
    and c2: "calls w2 = calls w1 @ [UrlOpen source_url [(''User-agent'', ''python'')]]"
    by simp_all
  from opened o' gone have gone2: "\<not> os_path_exists env TMP_UNZIP_PATH (outside w2)"
    by blast
  from perform_Inr [OF x]
  have x': "zip_extractall_bytes env file_stream target_parent_dir (outside w2) =
              (Inr (), outside w')"
    and c3: "calls w' = calls w2 @ [ZipExtractBytes file_stream target_parent_dir]"
    by simp_all
  from extracted x' gone2 have "\<not> os_path_exists env TMP_UNZIP_PATH (outside w')"
    by blast
  moreover have "calls w' = calls w @
              (if os_path_exists env TMP_UNZIP_PATH (outside w)
               then [OsRemove TMP_UNZIP_PATH] else []) @
              [UrlOpen source_url [(''User-agent'', ''python'')],
               ZipExtractBytes file_stream target_parent_dir]"
    using c1 c2 c3 by simp
  ultimately show ?thesis by blast
qed

subsection \<open>Claim about the temporary archive\<close>

text \<open>
  Claim C7. Take a call of \<^verbatim>\<open>download_and_unzip_files\<close> whose target does not exist,
  so that the archive is downloaded, and that returns, in an environment where a
  successful \<^verbatim>\<open>os.remove\<close> of the temporary path leaves no file there, and where the
  request of the fallback, the extraction from memory and the final rename do not
  create a file at the temporary path. Then at the return no file exists at
  \<open>TMP_UNZIP_PATH\<close>. The calls made are those of one of the two paths: either the
  first extraction and the removal succeeded, and the calls are the creation of the
  directory, the retrieval, the extraction, the removal and the rename; or the \<^verbatim>\<open>try\<close>
  block raised an exception, and between the first extraction and the request with the
  user-agent header there are only removals of the temporary path.
\<close>

theorem temporary_archive_removed:
  assumes missing: "\<not> os_path_exists env (os_path_join target_parent_dir target_root_name)
                       (outside w)"
    and run: "download_and_unzip_files env source_url target_parent_dir zip_root_name
                target_root_name w = (Inr (), w')"
    and removed: "\<forall>s s'. os_remove env TMP_UNZIP_PATH s = (Inr (), s') \<longrightarrow>
                    \<not> os_path_exists env TMP_UNZIP_PATH s'"
    and opened: "\<forall>s s' file_stream.
                   url_open_read env source_url [(''User-agent'', ''python'')] s =
                     (Inr file_stream, s') \<and>
                   \<not> os_path_exists env TMP_UNZIP_PATH s \<longrightarrow>
                   \<not> os_path_exists env TMP_UNZIP_PATH s'"
    and extracted: "\<forall>s s' file_stream.
                   zip_extractall_bytes env file_stream target_parent_dir s = (Inr (), s') \<and>
                   \<not> os_path_exists env TMP_UNZIP_PATH s \<longrightarrow>
                   \<not> os_path_exists env TMP_UNZIP_PATH s'"
    and renamed: "\<forall>s s'.
                   os_rename env (os_path_join target_parent_dir zip_root_name)
                     (os_path_join target_parent_dir target_root_name) s = (Inr (), s') \<and>
                   \<not> os_path_exists env TMP_UNZIP_PATH s \<longrightarrow>
                   \<not> os_path_exists env TMP_UNZIP_PATH s'"
  shows "\<not> os_path_exists env TMP_UNZIP_PATH (outside w') \<and>
         (calls w' = calls w @
            [EnsureDirectoryExists target_parent_dir,
             UrlRetrieve source_url TMP_UNZIP_PATH,
             ZipExtractFile TMP_UNZIP_PATH target_parent_dir,
             OsRemove TMP_UNZIP_PATH,
             OsRename (os_path_join target_parent_dir zip_root_name)
               (os_path_join target_parent_dir target_root_name)] \<or>
          (\<exists>removals file_stream.
             set removals \<subseteq> {OsRemove TMP_UNZIP_PATH} \<and>
             calls w' = calls w @
               [EnsureDirectoryExists target_parent_dir,
                UrlRetrieve source_url TMP_UNZIP_PATH,
                ZipExtractFile TMP_UNZIP_PATH target_parent_dir] @ removals @
               [UrlOpen source_url [(''User-agent'', ''python'')],
                ZipExtractBytes file_stream target_parent_dir,
                OsRename (os_path_join target_parent_dir zip_root_name)
                  (os_path_join target_parent_dir target_root_name)]))"
proof -
  let ?rename = "OsRename (os_path_join target_parent_dir zip_root_name)
                   (os_path_join target_parent_dir target_root_name)"
  obtain r1 w1 where e: "perform (EnsureDirectoryExists target_parent_dir)
      (ensure_directory_exists env target_parent_dir) w = (r1, w1)"
    by (cases "perform (EnsureDirectoryExists target_parent_dir)
      (ensure_directory_exists env target_parent_dir) w")
  obtain r2 w2 where u: "perform (UrlRetrieve source_url TMP_UNZIP_PATH)
      (url_retrieve env source_url TMP_UNZIP_PATH) w1 = (r2, w2)"
    by (cases "perform (UrlRetrieve source_url TMP_UNZIP_PATH)
      (url_retrieve env source_url TMP_UNZIP_PATH) w1")
  obtain r3 w3 where t: "unzip_try env target_parent_dir w2 = (r3, w3)"
    by (cases "unzip_try env target_parent_dir w2")
  let ?handled = "case r3 of
                    Inl e \<Rightarrow> if is_Exception e
                             then unzip_except env source_url target_parent_dir w3
                             else (Inl e, w3)
                  | Inr _ \<Rightarrow> (Inr (), w3)"
  obtain r4 w4 where h: "?handled = (r4, w4)"
    by (cases ?handled)
  from run missing e have r1: "r1 = Inr ()"
    unfolding download_and_unzip_files_def by (cases r1) auto
  from run missing e u r1 have r2: "r2 = Inr ()"
    unfolding download_and_unzip_files_def by (cases r2) auto
  have body: "(case (case ?handled of (Inl e, w4) \<Rightarrow> (Inl e, w4)
                     | (Inr _, w4) \<Rightarrow> perform ?rename
                         (os_rename env (os_path_join target_parent_dir zip_root_name)
                            (os_path_join target_parent_dir target_root_name)) w4) of
                (r, w5) \<Rightarrow> r = Inr () \<and> w5 = w')"
    using run missing e u t r1 r2
    unfolding download_and_unzip_files_def by (cases r3) (auto split: sum.splits)
  from body h have r4: "r4 = Inr ()"
    by (cases r4) auto
  from body h r4 have n: "perform ?rename
      (os_rename env (os_path_join target_parent_dir zip_root_name)
         (os_path_join target_parent_dir target_root_name)) w4 = (Inr (), w')"
    by (auto split: prod.splits)
  from perform_Inr [OF n]
  have n': "os_rename env (os_path_join target_parent_dir zip_root_name)
              (os_path_join target_parent_dir target_root_name) (outside w4) =
              (Inr (), outside w')"
    and c5: "calls w' = calls w4 @ [?rename]"
    by simp_all
  have c2: "calls w2 = calls w @ [EnsureDirectoryExists target_parent_dir,
                                  UrlRetrieve source_url TMP_UNZIP_PATH]"
    using perform_calls [OF e] perform_calls [OF u] by simp
  show ?thesis
  proof (cases r3)
    case (Inr x)
    with h have w4: "w4 = w3" by simp
    from t Inr have "unzip_try env target_parent_dir w2 = (Inr (), w3)" by simp
    from unzip_try_Inr [OF this] obtain s where
      rm: "os_remove env TMP_UNZIP_PATH s = (Inr (), outside w3)"
      and c3: "calls w3 = calls w2 @ [ZipExtractFile TMP_UNZIP_PATH target_parent_dir,
                                      OsRemove TMP_UNZIP_PATH]"
      by blast
    from removed rm have "\<not> os_path_exists env TMP_UNZIP_PATH (outside w4)"
      unfolding w4 by blast
    with renamed n' have "\<not> os_path_exists env TMP_UNZIP_PATH (outside w')"
      by blast
    moreover have "calls w' = calls w @
            [EnsureDirectoryExists target_parent_dir,
             UrlRetrieve source_url TMP_UNZIP_PATH,
             ZipExtractFile TMP_UNZIP_PATH target_parent_dir,
             OsRemove TMP_UNZIP_PATH, ?rename]"
      using c2 c3 c5 w4 by simp
    ultimately show ?thesis by blast
  next
    case (Inl e)
    with h r4 have ex: "is_Exception e"
      and x: "unzip_except env source_url target_parent_dir w3 = (Inr (), w4)"
      by (auto split: if_splits)
    from t Inl have "unzip_try env target_parent_dir w2 = (Inl e, w3)" by simp
    from unzip_try_Inl [OF this] obtain first where
      c3: "calls w3 = calls w2 @ [ZipExtractFile TMP_UNZIP_PATH target_parent_dir] @ first"
      and first: "set first \<subseteq> {OsRemove TMP_UNZIP_PATH}"
      by (elim disjE) (auto intro: that [of "[]"] that [of "[OsRemove TMP_UNZIP_PATH]"])
    from unzip_except_Inr [OF x removed opened extracted] obtain file_stream where
      gone: "\<not> os_path_exists env TMP_UNZIP_PATH (outside w4)"
      and c4: "calls w4 = calls w3 @
              (if os_path_exists env TMP_UNZIP_PATH (outside w3)
               then [OsRemove TMP_UNZIP_PATH] else []) @
              [UrlOpen source_url [(''User-agent'', ''python'')],
               ZipExtractBytes file_stream target_parent_dir]"
      by blast
    let ?removals = "first @ (if os_path_exists env TMP_UNZIP_PATH (outside w3)
               then [OsRemove TMP_UNZIP_PATH] else [])"
    from renamed n' gone have g1: "\<not> os_path_exists env TMP_UNZIP_PATH (outside w')"
      by blast
    have g2: "set ?removals \<subseteq> {OsRemove TMP_UNZIP_PATH}"
      using first by auto
    have g3: "calls w' = calls w @
               [EnsureDirectoryExists target_parent_dir,
                UrlRetrieve source_url TMP_UNZIP_PATH,
                ZipExtractFile TMP_UNZIP_PATH target_parent_dir] @ ?removals @
               [UrlOpen source_url [(''User-agent'', ''python'')],
                ZipExtractBytes file_stream target_parent_dir, ?rename]"
      using c2 c3 c4 c5 by simp
    from g1 g2 g3 show ?thesis by blast
  qed
qed

text \<open>
  Two runs from the empty world for an archive whose top-level folder is
  \<open>pkg-master\<close>: one where the first extraction succeeds, one where it raises and the
  fallback is taken. In both the temporary file is gone at the return.
\<close>

theorem temporary_archive_removed_witness:
  "download_and_unzip_files (example_env False ''pkg-master'') ''https://x/pkg-3.zip''
     ''./third_party/static'' ''pkg-master'' ''pkg-3'' \<lparr>outside = [], calls = []\<rparr> =
     (Inr (), \<lparr>outside = [''./third_party/static/pkg-3'', ''./third_party/static''],
       calls = [EnsureDirectoryExists ''./third_party/static'',
                UrlRetrieve ''https://x/pkg-3.zip'' ''./tmp_unzip.zip'',
                ZipExtractFile ''./tmp_unzip.zip'' ''./third_party/static'',
                OsRemove ''./tmp_unzip.zip'',
                OsRename ''./third_party/static/pkg-master''
                  ''./third_party/static/pkg-3'']\<rparr>) \<and>
   \<not> os_path_exists (example_env False ''pkg-master'') TMP_UNZIP_PATH
       [''./third_party/static/pkg-3'', ''./third_party/static''] \<and>
   download_and_unzip_files (example_env True ''pkg-master'') ''https://x/pkg-3.zip''
     ''./third_party/static'' ''pkg-master'' ''pkg-3'' \<lparr>outside = [], calls = []\<rparr> =
     (Inr (), \<lparr>outside = [''./third_party/static/pkg-3'', ''./third_party/static''],
       calls = [EnsureDirectoryExists ''./third_party/static'',
                UrlRetrieve ''https://x/pkg-3.zip'' ''./tmp_unzip.zip'',
                ZipExtractFile ''./tmp_unzip.zip'' ''./third_party/static'',
                OsRemove ''./tmp_unzip.zip'',
                UrlOpen ''https://x/pkg-3.zip'' [(''User-agent'', ''python'')],
                ZipExtractBytes [80, 75, 3, 4] ''./third_party/static'',
                OsRename ''./third_party/static/pkg-master''
                  ''./third_party/static/pkg-3'']\<rparr>) \<and>
   \<not> os_path_exists (example_env True ''pkg-master'') TMP_UNZIP_PATH
       [''./third_party/static/pkg-3'', ''./third_party/static'']"
proof -
  let ?w = "\<lparr>outside = [], calls = []\<rparr> :: string list world"
  let ?p = "''./third_party/static''"
  let ?u = "''https://x/pkg-3.zip''"
  let ?s = "[''./third_party/static/pkg-3'', ''./third_party/static'']"
  let ?w1 = "\<lparr>outside = ?s,
       calls = [EnsureDirectoryExists ?p,
                UrlRetrieve ?u ''./tmp_unzip.zip'',
                ZipExtractFile ''./tmp_unzip.zip'' ?p,
                OsRemove ''./tmp_unzip.zip'',
                OsRename ''./third_party/static/pkg-master''
                  ''./third_party/static/pkg-3'']\<rparr>"
  let ?w2 = "\<lparr>outside = ?s,
       calls = [EnsureDirectoryExists ?p,
                UrlRetrieve ?u ''./tmp_unzip.zip'',
                ZipExtractFile ''./tmp_unzip.zip'' ?p,
                OsRemove ''./tmp_unzip.zip'',
                UrlOpen ?u [(''User-agent'', ''python'')],
                ZipExtractBytes [80, 75, 3, 4] ?p,
                OsRename ''./third_party/static/pkg-master''
                  ''./third_party/static/pkg-3'']\<rparr>"
  have missing: "\<not> os_path_exists (example_env b ''pkg-master'') (os_path_join ?p ''pkg-3'')
                     (outside ?w)" for b
    by (simp add: example_env_def)
  have run1: "download_and_unzip_files (example_env False ''pkg-master'') ?u ?p
                ''pkg-master'' ''pkg-3'' ?w = (Inr (), ?w1)"
    by (simp add: download_and_unzip_files_def unzip_try_def perform_def example_env_def
        os_path_join_def TMP_UNZIP_PATH_eq)
  have run2: "download_and_unzip_files (example_env True ''pkg-master'') ?u ?p
                ''pkg-master'' ''pkg-3'' ?w = (Inr (), ?w2)"
    by (simp add: download_and_unzip_files_def unzip_try_def unzip_except_def perform_def
        example_env_def os_path_join_def TMP_UNZIP_PATH_eq)
  have removed: "\<forall>s s'. os_remove (example_env b ''pkg-master'') TMP_UNZIP_PATH s = (Inr (), s') \<longrightarrow>
                    \<not> os_path_exists (example_env b ''pkg-master'') TMP_UNZIP_PATH s'" for b
    by (auto simp: example_env_def split: if_splits)
  have opened: "\<forall>s s' file_stream.
                   url_open_read (example_env b ''pkg-master'') ?u [(''User-agent'', ''python'')] s =
                     (Inr file_stream, s') \<and>
                   \<not> os_path_exists (example_env b ''pkg-master'') TMP_UNZIP_PATH s \<longrightarrow>
                   \<not> os_path_exists (example_env b ''pkg-master'') TMP_UNZIP_PATH s'" for b
    by (auto simp: example_env_def)
  have extracted: "\<forall>s s' file_stream.
                   zip_extractall_bytes (example_env b ''pkg-master'') file_stream ?p s =
                     (Inr (), s') \<and>
                   \<not> os_path_exists (example_env b ''pkg-master'') TMP_UNZIP_PATH s \<longrightarrow>
                   \<not> os_path_exists (example_env b ''pkg-master'') TMP_UNZIP_PATH s'" for b
    by (auto simp: example_env_def os_path_join_def TMP_UNZIP_PATH_eq)
  have renamed: "\<forall>s s'.
                   os_rename (example_env b ''pkg-master'') (os_path_join ?p ''pkg-master'')
                     (os_path_join ?p ''pkg-3'') s = (Inr (), s') \<and>
                   \<not> os_path_exists (example_env b ''pkg-master'') TMP_UNZIP_PATH s \<longrightarrow>
                   \<not> os_path_exists (example_env b ''pkg-master'') TMP_UNZIP_PATH s'" for b
    by (auto simp: example_env_def os_path_join_def TMP_UNZIP_PATH_eq split: if_splits)
  from temporary_archive_removed [OF missing run1 removed opened extracted renamed]
    temporary_archive_removed [OF missing run2 removed opened extracted renamed] run1 run2
  show ?thesis
    by (simp add: example_env_def TMP_UNZIP_PATH_eq)
qed

end
